theory Spec2Isabelle
  imports Complex_Main
begin

section \<open>JavaScript strings\<close>

text \<open>
  A JavaScript string is a sequence of UTF-16 code units; \<open>length\<close> counts code units.
  A code unit is modelled as a natural number, a literal of the source is written
  \<open>js ''...''\<close>.
\<close>

type_synonym jsstring = "nat list"

definition js :: "string \<Rightarrow> jsstring" where
  "js s = map of_char s"

text \<open>
  The code units matched by \<open>\s\<close> in a regular expression and stripped by \<open>trim\<close>:
  WhiteSpace and LineTerminator of ECMAScript.
\<close>

definition isWhiteSpace :: "nat \<Rightarrow> bool" where
  "isWhiteSpace c \<longleftrightarrow>
     c = 9 \<or> c = 10 \<or> c = 11 \<or> c = 12 \<or> c = 13 \<or> c = 32 \<or> c = 160 \<or> c = 5760 \<or>
     (8192 \<le> c \<and> c \<le> 8202) \<or> c = 8232 \<or> c = 8233 \<or> c = 8239 \<or> c = 8287 \<or>
     c = 12288 \<or> c = 65279"

text \<open>
  \<open>String.prototype.toLowerCase\<close>. The table of the platform is modelled on every code
  unit whose lower case lies at or below U+00FF: the code units up to U+00FF themselves,
  and above them U+0130 (which becomes the two code units \<open>i\<close>, U+0307), U+0178, U+1E9E,
  U+212A (the Kelvin sign, which becomes \<open>k\<close>) and U+212B. Any other code unit has a lower
  case above U+00FF and is left as it is: the engine tests the lower-cased text against
  patterns and words of ASCII characters only, which a code unit above U+00FF never
  matches, whichever it is.
\<close>

definition toLowerCaseUnit :: "nat \<Rightarrow> nat" where
  "toLowerCaseUnit c =
     (if (65 \<le> c \<and> c \<le> 90) \<or> (192 \<le> c \<and> c \<le> 222 \<and> c \<noteq> 215) then c + 32
      else if c = 376 then 255
      else if c = 7838 then 223
      else if c = 8490 then 107
      else if c = 8491 then 229
      else c)"

fun toLowerCase :: "jsstring \<Rightarrow> jsstring" where
  "toLowerCase [] = []"
| "toLowerCase (c # cs) =
     (if c = 304 then 105 # 775 # toLowerCase cs else toLowerCaseUnit c # toLowerCase cs)"

text \<open>
  The case folding of the \<open>i\<close> flag (Canonicalize) maps a code unit to its upper case
  when that is one code unit, except that a code unit from U+0080 on never folds to one
  below U+0080. It is modelled on the code units up to U+00FF; a code unit above U+00FF
  is left as it is, and so, as in the platform, never has the canonical form of an ASCII
  character.
\<close>

definition canonicalize :: "nat \<Rightarrow> nat" where
  "canonicalize c =
     (if (97 \<le> c \<and> c \<le> 122) \<or> (224 \<le> c \<and> c \<le> 254 \<and> c \<noteq> 247) then c - 32
      else if c = 255 then 376
      else if c = 181 then 924
      else c)"

text \<open>\<open>String.prototype.trim\<close>.\<close>

definition trim :: "jsstring \<Rightarrow> jsstring" where
  "trim s = rev (dropWhile isWhiteSpace (rev (dropWhile isWhiteSpace s)))"

text \<open>\<open>String.prototype.includes\<close>: the argument occurs as a substring.\<close>

fun startsWith :: "jsstring \<Rightarrow> jsstring \<Rightarrow> bool" where
  "startsWith s [] = True"
| "startsWith [] (p # ps) = False"
| "startsWith (c # cs) (p # ps) = (if c = p then startsWith cs ps else False)"

fun includes_js :: "jsstring \<Rightarrow> jsstring \<Rightarrow> bool" where
  "includes_js [] p = (p = [])"
| "includes_js (c # cs) p = (if startsWith (c # cs) p then True else includes_js cs p)"

text \<open>\<open>Array.prototype.join\<close> with a separator.\<close>

fun join :: "jsstring \<Rightarrow> jsstring list \<Rightarrow> jsstring" where
  "join sep [] = []"
| "join sep [s] = s"
| "join sep (s # t # ss) = s @ sep @ join sep (t # ss)"

section \<open>Regular expressions\<close>

text \<open>
  \<open>new RegExp(source, 'i')\<close> is modelled on the fragment of the pattern language that a
  keyword of the catalog can reach: literal characters, \<open>\s\<close>, and character classes
  \<open>[...]\<close> of characters, ranges and \<open>\s\<close>. As in the web-compatible grammar, a \<open>]\<close>
  outside a class is a literal, and a range with \<open>\s\<close> at one end is the union of both
  ends and \<open>-\<close>. An unterminated class, a range out of order and a trailing backslash are a
  SyntaxError of the constructor; every other piece of syntax (quantifiers, groups,
  alternatives, anchors, negated classes, other escapes) is reported as not modelled.
\<close>

datatype error = SyntaxError | UnsupportedPattern | InvalidURL

datatype token = Ch nat | Esc nat

fun tokens :: "jsstring \<Rightarrow> error + token list" where
  "tokens [] = Inr []"
| "tokens [c] = (if c = 92 then Inl SyntaxError else Inr [Ch c])"
| "tokens (c # d # ds) =
     (if c = 92 then (case tokens ds of Inl e \<Rightarrow> Inl e | Inr ts \<Rightarrow> Inr (Esc d # ts))
      else (case tokens (d # ds) of Inl e \<Rightarrow> Inl e | Inr ts \<Rightarrow> Inr (Ch c # ts)))"

datatype class_item = Single nat | Range nat nat | Space

datatype atom = Lit nat | Class "class_item list"

fun classItem :: "token \<Rightarrow> error + class_item" where
  "classItem (Ch c) = Inr (Single c)"
| "classItem (Esc c) = (if c = 115 then Inr Space else Inl UnsupportedPattern)"

text \<open>The items of \<open>a-b\<close> inside a class.\<close>

definition rangeItems :: "token \<Rightarrow> token \<Rightarrow> error + class_item list" where
  "rangeItems a b =
     (case classItem a of
        Inl e \<Rightarrow> Inl e
      | Inr x \<Rightarrow>
          (case classItem b of
             Inl e \<Rightarrow> Inl e
           | Inr y \<Rightarrow>
               (case (x, y) of
                  (Single lo, Single hi) \<Rightarrow>
                    if hi < lo then Inl SyntaxError else Inr [Range lo hi]
                | _ \<Rightarrow> Inr [x, Single 45, y])))"

definition isSyntaxCharacter :: "nat \<Rightarrow> bool" where
  "isSyntaxCharacter c \<longleftrightarrow>
     c = 94 \<or> c = 36 \<or> c = 46 \<or> c = 42 \<or> c = 43 \<or> c = 63 \<or> c = 40 \<or> c = 41 \<or>
     c = 124 \<or> c = 123 \<or> c = 125"

definition consAtom :: "atom \<Rightarrow> error + atom list \<Rightarrow> error + atom list" where
  "consAtom a r = (case r of Inl e \<Rightarrow> Inl e | Inr as \<Rightarrow> Inr (a # as))"

text \<open>
  The parser. Its first argument is \<open>None\<close> outside a character class and \<open>Some items\<close>
  inside one, with the items read so far.
\<close>

fun parse :: "class_item list option \<Rightarrow> token list \<Rightarrow> error + atom list" where
  "parse None [] = Inr []"
| "parse (Some acc) [] = Inl SyntaxError"
| "parse None (Esc c # r) =
     (if c = 115 then consAtom (Class [Space]) (parse None r) else Inl UnsupportedPattern)"
| "parse None (Ch c # r) =
     (if c = 91 then
        (if r \<noteq> [] \<and> hd r = Ch 94 then Inl UnsupportedPattern else parse (Some []) r)
      else if isSyntaxCharacter c then Inl UnsupportedPattern
      else consAtom (Lit c) (parse None r))"
| "parse (Some acc) (a # Ch d # b # r) =
     (if a = Ch 93 then consAtom (Class acc) (parse None (Ch d # b # r))
      else if d = 45 \<and> b \<noteq> Ch 93 then
        (case rangeItems a b of
           Inl e \<Rightarrow> Inl e
         | Inr its \<Rightarrow> parse (Some (acc @ its)) r)
      else
        (case classItem a of
           Inl e \<Rightarrow> Inl e
         | Inr it \<Rightarrow> parse (Some (acc @ [it])) (Ch d # b # r)))"
| "parse (Some acc) (a # r) =
     (if a = Ch 93 then consAtom (Class acc) (parse None r)
      else
        (case classItem a of
           Inl e \<Rightarrow> Inl e
         | Inr it \<Rightarrow> parse (Some (acc @ [it])) r))"

definition RegExp_i :: "jsstring \<Rightarrow> error + atom list" where
  "RegExp_i source = (case tokens source of Inl e \<Rightarrow> Inl e | Inr ts \<Rightarrow> parse None ts)"

text \<open>
  Matching with the \<open>i\<close> flag: a code unit matches a pattern character, or a member of a
  class, when both have the same canonical form.
\<close>

fun itemMatches :: "class_item \<Rightarrow> nat \<Rightarrow> bool" where
  "itemMatches (Single m) c = (canonicalize m = canonicalize c)"
| "itemMatches (Range lo hi) c = list_ex (\<lambda>m. canonicalize m = canonicalize c) [lo ..< Suc hi]"
| "itemMatches Space c = isWhiteSpace (canonicalize c)"

fun atomMatches :: "atom \<Rightarrow> nat \<Rightarrow> bool" where
  "atomMatches (Lit p) c = (canonicalize p = canonicalize c)"
| "atomMatches (Class its) c = list_ex (\<lambda>it. itemMatches it c) its"

fun matchHere :: "atom list \<Rightarrow> jsstring \<Rightarrow> bool" where
  "matchHere [] s = True"
| "matchHere (a # as) [] = False"
| "matchHere (a # as) (c # cs) = (if atomMatches a c then matchHere as cs else False)"

text \<open>\<open>RegExp.prototype.test\<close> of a regular expression without the \<open>g\<close> flag.\<close>

fun test :: "atom list \<Rightarrow> jsstring \<Rightarrow> bool" where
  "test re [] = matchHere re []"
| "test re (c # cs) = (if matchHere re (c # cs) then True else test re cs)"

section \<open>The engine: catalogs\<close>

datatype category_key =
    DATA_SHARING_RESALE
  | FORCED_ARBITRATION
  | CLASS_ACTION_WAIVER
  | SURVEILLANCE_TRACKING
  | UNILATERAL_MODIFICATION
  | ACCOUNT_TERMINATION
  | LIABILITY_LIMITATION
  | INDEFINITE_RETENTION

datatype benchmark_key = SOCIAL_MEDIA | E_COMMERCE | FINANCIAL | TECHNOLOGY

record category =
  name_c :: string
  weight_c :: real
  description_c :: string
  irreversible_c :: bool

record pattern =
  keywords_p :: "jsstring list"
  severity_p :: real
  indicators_p :: "string list"

text \<open>
  Field names carry a suffix for their record (\<open>_c\<close> category, \<open>_p\<close> pattern set,
  \<open>_m\<close> match, and so on) where the source uses one property name in several objects.
\<close>

record benchmark_bucket =
  name_b :: string
  average_risk_score :: real
  examples_b :: "string list"

text \<open>
  The three catalogs are objects with a fixed set of keys: total functions on the key
  types. \<open>Object.entries(this.categories)\<close> lists the keys in the order of the literal.
\<close>

record engine =
  categories :: "category_key \<Rightarrow> category"
  patterns :: "category_key \<Rightarrow> pattern"
  benchmarks :: "benchmark_key \<Rightarrow> benchmark_bucket"

definition category_keys :: "category_key list" where
  "category_keys =
     [DATA_SHARING_RESALE, FORCED_ARBITRATION, CLASS_ACTION_WAIVER, SURVEILLANCE_TRACKING,
      UNILATERAL_MODIFICATION, ACCOUNT_TERMINATION, LIABILITY_LIMITATION, INDEFINITE_RETENTION]"

fun setupCategories :: "category_key \<Rightarrow> category" where
  "setupCategories DATA_SHARING_RESALE =
     \<lparr>name_c = ''Data Sharing & Resale'', weight_c = 0.18,
      description_c = ''Clauses allowing sharing or selling user data to third parties'',
      irreversible_c = False\<rparr>"
| "setupCategories FORCED_ARBITRATION =
     \<lparr>name_c = ''Forced Arbitration'', weight_c = 0.16,
      description_c = ''Mandatory arbitration clauses preventing court access'',
      irreversible_c = True\<rparr>"
| "setupCategories CLASS_ACTION_WAIVER =
     \<lparr>name_c = ''Class Action Waiver'', weight_c = 0.14,
      description_c = ''Prohibitions on participating in class action lawsuits'',
      irreversible_c = True\<rparr>"
| "setupCategories SURVEILLANCE_TRACKING =
     \<lparr>name_c = ''Surveillance & Tracking'', weight_c = 0.15,
      description_c = ''Extensive monitoring and tracking of user behavior'',
      irreversible_c = False\<rparr>"
| "setupCategories UNILATERAL_MODIFICATION =
     \<lparr>name_c = ''Unilateral Policy Modification'', weight_c = 0.12,
      description_c = ''Company can change terms without consent'',
      irreversible_c = False\<rparr>"
| "setupCategories ACCOUNT_TERMINATION =
     \<lparr>name_c = ''Account Termination Rights'', weight_c = 0.08,
      description_c = ''Broad rights to suspend or terminate accounts'',
      irreversible_c = False\<rparr>"
| "setupCategories LIABILITY_LIMITATION =
     \<lparr>name_c = ''Liability Limitation'', weight_c = 0.09,
      description_c = ''Limiting company liability for damages'',
      irreversible_c = False\<rparr>"
| "setupCategories INDEFINITE_RETENTION =
     \<lparr>name_c = ''Indefinite Data Retention'', weight_c = 0.08,
      description_c = ''Keeping user data indefinitely without deletion options'',
      irreversible_c = False\<rparr>"

text \<open>
  The keywords are the values of the string literals of the source. In a quoted string
  literal the escape \<open>\s\<close> is the letter \<open>s\<close>, so the literal written
  \<open>'third[-\s]party advertisers'\<close> is the string \<open>third[-s]party advertisers\<close>.
\<close>

fun setupPatterns :: "category_key \<Rightarrow> pattern" where
  "setupPatterns DATA_SHARING_RESALE =
     \<lparr>keywords_p =
        [js ''share your data with third parties'',
         js ''sell your personal information'',
         js ''data brokers'',
         js ''affiliate sharing'',
         js ''partner companies'',
         js ''third[-s]party advertisers'',
         js ''cross[-s]device tracking'',
         js ''data resellers''],
      severity_p = 0.85,
      indicators_p = [''sell'', ''resell'', ''share with third'', ''data broker'', ''affiliate'']\<rparr>"
| "setupPatterns FORCED_ARBITRATION =
     \<lparr>keywords_p =
        [js ''mandatory arbitration'',
         js ''binding arbitration'',
         js ''waive right to jury trial'',
         js ''arbitrate any dispute'',
         js ''no right to sue in court'',
         js ''individual arbitration only''],
      severity_p = 0.95,
      indicators_p = [''arbitration'', ''waive'', ''jury trial'', ''dispute resolution'']\<rparr>"
| "setupPatterns CLASS_ACTION_WAIVER =
     \<lparr>keywords_p =
        [js ''waive right to class action'',
         js ''no class[-s]action lawsuits'',
         js ''individual claims only'',
         js ''cannot participate in class action'',
         js ''class action waiver''],
      severity_p = 0.90,
      indicators_p = [''class action'', ''collective action'', ''group lawsuit'']\<rparr>"
| "setupPatterns SURVEILLANCE_TRACKING =
     \<lparr>keywords_p =
        [js ''track your location'',
         js ''monitor your activity'',
         js ''collect usage data'',
         js ''behavioral tracking'',
         js ''cross[-s]site tracking'',
         js ''fingerprinting'',
         js ''device identifiers''],
      severity_p = 0.75,
      indicators_p = [''track'', ''monitor'', ''collect data'', ''fingerprint'', ''identifiers'']\<rparr>"
| "setupPatterns UNILATERAL_MODIFICATION =
     \<lparr>keywords_p =
        [js ''reserve the right to modify'',
         js ''change these terms at any time'',
         js ''update without notice'',
         js ''modifications effective immediately'',
         js ''continued use constitutes acceptance''],
      severity_p = 0.70,
      indicators_p = [''modify'', ''change'', ''update'', ''without notice'', ''reserve right'']\<rparr>"
| "setupPatterns ACCOUNT_TERMINATION =
     \<lparr>keywords_p =
        [js ''terminate your account at any time'',
         js ''suspend without notice'',
         js ''refuse service at our discretion'',
         js ''disable access immediately'',
         js ''cancel for any reason''],
      severity_p = 0.65,
      indicators_p =
        [''terminate'', ''suspend'', ''disable'', ''refuse service'', ''without notice'']\<rparr>"
| "setupPatterns LIABILITY_LIMITATION =
     \<lparr>keywords_p =
        [js ''not liable for any damages'',
         js ''maximum liability limited to'',
         js ''exclude consequential damages'',
         js ''as[-s]is without warranty'',
         js ''disclaim all warranties''],
      severity_p = 0.60,
      indicators_p =
        [''not liable'', ''limited liability'', ''exclude damages'', ''warranty disclaimer'']\<rparr>"
| "setupPatterns INDEFINITE_RETENTION =
     \<lparr>keywords_p =
        [js ''retain your data indefinitely'',
         js ''no obligation to delete'',
         js ''store as long as necessary'',
         js ''keep records forever'',
         js ''indefinite storage period''],
      severity_p = 0.70,
      indicators_p =
        [''retain indefinitely'', ''no obligation to delete'', ''store forever'',
         ''indefinite period'']\<rparr>"

fun setupBenchmarks :: "benchmark_key \<Rightarrow> benchmark_bucket" where
  "setupBenchmarks SOCIAL_MEDIA =
     \<lparr>name_b = ''Social Media Platforms'', average_risk_score = 65,
      examples_b = [''Facebook'', ''Twitter'', ''Instagram'', ''TikTok'']\<rparr>"
| "setupBenchmarks E_COMMERCE =
     \<lparr>name_b = ''E-commerce Platforms'', average_risk_score = 45,
      examples_b = [''Amazon'', ''eBay'', ''Shopify'', ''Etsy'']\<rparr>"
| "setupBenchmarks FINANCIAL =
     \<lparr>name_b = ''Financial Services'', average_risk_score = 55,
      examples_b = [''PayPal'', ''Banks'', ''Investment platforms'']\<rparr>"
| "setupBenchmarks TECHNOLOGY =
     \<lparr>name_b = ''Technology Companies'', average_risk_score = 50,
      examples_b = [''Google'', ''Microsoft'', ''Apple'', ''Software services'']\<rparr>"

text \<open>\<open>new ConsentLensAIEngine()\<close>.\<close>

definition constructor :: engine where
  "constructor =
     \<lparr>categories = setupCategories, patterns = setupPatterns, benchmarks = setupBenchmarks\<rparr>"

section \<open>Preprocessing and clause segmentation\<close>

text \<open>
  \<open>replace(/\s+/g, ' ')\<close>: every maximal run of white space becomes one space. The flag
  says whether the previous code unit belonged to a run.
\<close>

fun collapseWhiteSpace :: "bool \<Rightarrow> jsstring \<Rightarrow> jsstring" where
  "collapseWhiteSpace inRun [] = []"
| "collapseWhiteSpace inRun (c # cs) =
     (if isWhiteSpace c then
        (if inRun then collapseWhiteSpace True cs else 32 # collapseWhiteSpace True cs)
      else c # collapseWhiteSpace False cs)"

text \<open>The two replacements of curly quotes (U+2018, U+2019, U+201C, U+201D).\<close>

definition straightenSingle :: "nat \<Rightarrow> nat" where
  "straightenSingle c = (if c = 8216 \<or> c = 8217 then 39 else c)"

definition straightenDouble :: "nat \<Rightarrow> nat" where
  "straightenDouble c = (if c = 8220 \<or> c = 8221 then 34 else c)"

definition preprocessText :: "jsstring \<Rightarrow> jsstring" where
  "preprocessText text =
     trim (map straightenDouble (map straightenSingle (collapseWhiteSpace False text)))"

text \<open>
  \<open>split(/[.!?]+\s+/)\<close>. The expression matches at the start of a string that begins with
  a run of terminators followed by white space; \<open>splitMatch\<close> returns what follows the
  match. \<open>split\<close> scans the string, \<open>acc\<close> holding the current piece in reverse.
\<close>

definition isTerminator :: "nat \<Rightarrow> bool" where
  "isTerminator c \<longleftrightarrow> c = 46 \<or> c = 33 \<or> c = 63"

definition splitMatch :: "jsstring \<Rightarrow> jsstring option" where
  "splitMatch s =
     (case s of
        [] \<Rightarrow> None
      | c # cs \<Rightarrow>
          if isTerminator c then
            (case dropWhile isTerminator cs of
               [] \<Rightarrow> None
             | d # ds \<Rightarrow> if isWhiteSpace d then Some (dropWhile isWhiteSpace ds) else None)
          else None)"

function split :: "jsstring \<Rightarrow> jsstring \<Rightarrow> jsstring list" where
  "split acc [] = [rev acc]"
| "split acc (c # cs) =
     (case splitMatch (c # cs) of
        Some rest \<Rightarrow> rev acc # split [] rest
      | None \<Rightarrow> split (c # acc) cs)"
  by pat_completeness auto
termination
proof (relation "measure (\<lambda>(acc, s). length s)", goal_cases)
  case 1
  show ?case by simp
next
  case 2
  show ?case by simp
next
  case (3 acc c cs rest)
  then obtain d ds where d: "dropWhile isTerminator cs = d # ds"
    and rest: "rest = dropWhile isWhiteSpace ds"
    by (auto simp: splitMatch_def split: if_splits list.splits)
  have "length rest \<le> length ds"
    unfolding rest by (rule length_dropWhile_le)
  moreover have "length (d # ds) \<le> length cs"
    unfolding d [symmetric] by (rule length_dropWhile_le)
  ultimately show ?case by simp
qed

definition extractClauses :: "jsstring \<Rightarrow> jsstring list" where
  "extractClauses text = filter (\<lambda>s. length s > 20) (map trim (split [] text))"

section \<open>Category matching\<close>

record pattern_match =
  severity_pm :: real
  confidence_pm :: real
  keywords_pm :: "jsstring list"

record match =
  category_m :: category_key
  category_name_m :: string
  severity_m :: real
  confidence_m :: real
  matched_text_m :: jsstring
  matched_keywords_m :: "jsstring list"
  irreversible_m :: bool
  explanation_m :: string

record clause_analysis =
  text_ca :: jsstring
  matches_ca :: "match list"
  is_risky_ca :: bool
  highest_risk_ca :: real

text \<open>
  \<open>keyword.replace(/[-\s]/g, '[-\\s]')\<close>: every hyphen and every white space of the keyword
  becomes the five code units \<open>[-\s]\<close>.
\<close>

definition hyphenSpaceClass :: jsstring where
  "hyphenSpaceClass = [91, 45, 92, 115, 93]"

definition replaceHyphenSpace :: "jsstring \<Rightarrow> jsstring" where
  "replaceHyphenSpace keyword =
     concat (map (\<lambda>c. if c = 45 \<or> isWhiteSpace c then hyphenSpaceClass else [c]) keyword)"

definition keywordRegExp :: "jsstring \<Rightarrow> error + atom list" where
  "keywordRegExp keyword = RegExp_i (replaceHyphenSpace keyword)"

text \<open>
  The loop over \<open>pattern.keywords\<close>; its state is \<open>(matchedKeywords, totalMatches)\<close>.
  A keyword whose regular expression cannot be built ends the loop with the error.
\<close>

fun keywordLoop ::
  "jsstring \<Rightarrow> jsstring list \<Rightarrow> jsstring list \<times> nat \<Rightarrow> error + (jsstring list \<times> nat)" where
  "keywordLoop lowerClause [] st = Inr st"
| "keywordLoop lowerClause (keyword # rest) st =
     (case keywordRegExp keyword of
        Inl e \<Rightarrow> Inl e
      | Inr regex \<Rightarrow>
          keywordLoop lowerClause rest
            (if test regex lowerClause then (fst st @ [keyword], snd st + 1) else st))"

definition findPatternMatch :: "jsstring \<Rightarrow> pattern \<Rightarrow> error + pattern_match option" where
  "findPatternMatch clause pattern =
     (case keywordLoop (toLowerCase clause) (keywords_p pattern) ([], 0) of
        Inl e \<Rightarrow> Inl e
      | Inr (matchedKeywords, totalMatches) \<Rightarrow>
          if totalMatches = 0 then Inr None
          else Inr (Some \<lparr>severity_pm = severity_p pattern,
                          confidence_pm = min 0.95 (0.6 + real totalMatches * 0.15),
                          keywords_pm = matchedKeywords\<rparr>))"

fun generateExplanation :: "category_key \<Rightarrow> string" where
  "generateExplanation DATA_SHARING_RESALE =
     ''This clause indicates your personal data may be shared with or sold to third parties, including advertisers, data brokers, or affiliate companies.''"
| "generateExplanation FORCED_ARBITRATION =
     ''You would be required to resolve disputes through private arbitration rather than in court, forfeiting your right to a jury trial.''"
| "generateExplanation CLASS_ACTION_WAIVER =
     ''You cannot join class-action lawsuits against the company, limiting your ability to seek justice collectively with other users.''"
| "generateExplanation SURVEILLANCE_TRACKING =
     ''The company monitors and tracks your activities, location, or behavior, potentially across multiple devices and platforms.''"
| "generateExplanation UNILATERAL_MODIFICATION =
     ''The company can change these terms at any time without notice, and your continued use constitutes automatic acceptance.''"
| "generateExplanation ACCOUNT_TERMINATION =
     ''The company can suspend or terminate your account at their discretion, potentially without notice or explanation.''"
| "generateExplanation LIABILITY_LIMITATION =
     ''The company's liability for damages is limited, potentially leaving you without recourse if their service causes you harm.''"
| "generateExplanation INDEFINITE_RETENTION =
     ''Your data may be kept indefinitely even after you delete your account or stop using the service.''"

text \<open>The loop of \<open>analyzeClause\<close> over \<open>Object.entries(this.categories)\<close>.\<close>

fun categoryLoop :: "engine \<Rightarrow> jsstring \<Rightarrow> category_key list \<Rightarrow> error + match list" where
  "categoryLoop this clause [] = Inr []"
| "categoryLoop this clause (categoryKey # rest) =
     (case findPatternMatch clause (patterns this categoryKey) of
        Inl e \<Rightarrow> Inl e
      | Inr None \<Rightarrow> categoryLoop this clause rest
      | Inr (Some m) \<Rightarrow>
          (case categoryLoop this clause rest of
             Inl e \<Rightarrow> Inl e
           | Inr ms \<Rightarrow>
               Inr (\<lparr>category_m = categoryKey,
                     category_name_m = name_c (categories this categoryKey),
                     severity_m = severity_pm m,
                     confidence_m = confidence_pm m,
                     matched_text_m = clause,
                     matched_keywords_m = keywords_pm m,
                     irreversible_m = irreversible_c (categories this categoryKey),
                     explanation_m = generateExplanation categoryKey\<rparr> # ms)))"

definition analyzeClause :: "engine \<Rightarrow> jsstring \<Rightarrow> error + clause_analysis" where
  "analyzeClause this clause =
     (case categoryLoop this clause category_keys of
        Inl e \<Rightarrow> Inl e
      | Inr matches \<Rightarrow>
          Inr \<lparr>text_ca = clause,
               matches_ca = matches,
               is_risky_ca = (length matches > 0),
               highest_risk_ca =
                 (if length matches > 0
                  then foldl max (severity_m (hd matches)) (map severity_m (tl matches))
                  else 0)\<rparr>)"

section \<open>Numbers\<close>

text \<open>
  A number of the source is an IEEE double. A preference weight comes from the caller and
  may be any double, so the numbers of the risk score keep NaN and the two infinities
  apart from the finite values, with the arithmetic of the standard on them. On finite
  values the operations are exact: the rounding and the overflow of a finite result, and
  the sign of zero, are not modelled. Severities, confidences and catalog weights are
  finite constants and sums of them; they are reals.
\<close>

datatype number = Fin real | PosInf | NegInf | NaN

fun num_neg :: "number \<Rightarrow> number" where
  "num_neg (Fin a) = Fin (- a)"
| "num_neg PosInf = NegInf"
| "num_neg NegInf = PosInf"
| "num_neg NaN = NaN"

fun num_add :: "number \<Rightarrow> number \<Rightarrow> number" where
  "num_add NaN y = NaN"
| "num_add x NaN = NaN"
| "num_add (Fin a) (Fin b) = Fin (a + b)"
| "num_add (Fin a) y = y"
| "num_add x (Fin b) = x"
| "num_add PosInf PosInf = PosInf"
| "num_add NegInf NegInf = NegInf"
| "num_add PosInf NegInf = NaN"
| "num_add NegInf PosInf = NaN"

definition num_sub :: "number \<Rightarrow> number \<Rightarrow> number" where
  "num_sub x y = num_add x (num_neg y)"

fun num_mul :: "number \<Rightarrow> number \<Rightarrow> number" where
  "num_mul NaN y = NaN"
| "num_mul x NaN = NaN"
| "num_mul (Fin a) (Fin b) = Fin (a * b)"
| "num_mul (Fin a) PosInf = (if a = 0 then NaN else if 0 < a then PosInf else NegInf)"
| "num_mul (Fin a) NegInf = (if a = 0 then NaN else if 0 < a then NegInf else PosInf)"
| "num_mul PosInf (Fin b) = (if b = 0 then NaN else if 0 < b then PosInf else NegInf)"
| "num_mul NegInf (Fin b) = (if b = 0 then NaN else if 0 < b then NegInf else PosInf)"
| "num_mul PosInf PosInf = PosInf"
| "num_mul PosInf NegInf = NegInf"
| "num_mul NegInf PosInf = NegInf"
| "num_mul NegInf NegInf = PosInf"

fun num_div :: "number \<Rightarrow> number \<Rightarrow> number" where
  "num_div NaN y = NaN"
| "num_div x NaN = NaN"
| "num_div (Fin a) (Fin b) =
     (if b = 0 then (if a = 0 then NaN else if 0 < a then PosInf else NegInf)
      else Fin (a / b))"
| "num_div (Fin a) y = Fin 0"
| "num_div PosInf (Fin b) = (if 0 \<le> b then PosInf else NegInf)"
| "num_div NegInf (Fin b) = (if 0 \<le> b then NegInf else PosInf)"
| "num_div x y = NaN"

text \<open>The comparisons \<open><\<close> and \<open><=\<close>; both are false when an operand is NaN.\<close>

fun num_lt :: "number \<Rightarrow> number \<Rightarrow> bool" where
  "num_lt NaN y = False"
| "num_lt x NaN = False"
| "num_lt x NegInf = False"
| "num_lt PosInf y = False"
| "num_lt NegInf y = True"
| "num_lt x PosInf = True"
| "num_lt (Fin a) (Fin b) = (a < b)"

fun num_le :: "number \<Rightarrow> number \<Rightarrow> bool" where
  "num_le NaN y = False"
| "num_le x NaN = False"
| "num_le NegInf y = True"
| "num_le x PosInf = True"
| "num_le (Fin a) (Fin b) = (a \<le> b)"
| "num_le x y = False"

text \<open>\<open>Math.max\<close> and \<open>Math.min\<close> of two numbers, and \<open>Math.round\<close>.\<close>

fun Math_max :: "number \<Rightarrow> number \<Rightarrow> number" where
  "Math_max NaN y = NaN"
| "Math_max x NaN = NaN"
| "Math_max PosInf y = PosInf"
| "Math_max x PosInf = PosInf"
| "Math_max NegInf y = y"
| "Math_max x NegInf = x"
| "Math_max (Fin a) (Fin b) = Fin (max a b)"

fun Math_min :: "number \<Rightarrow> number \<Rightarrow> number" where
  "Math_min NaN y = NaN"
| "Math_min x NaN = NaN"
| "Math_min NegInf y = NegInf"
| "Math_min x NegInf = NegInf"
| "Math_min PosInf y = y"
| "Math_min x PosInf = x"
| "Math_min (Fin a) (Fin b) = Fin (min a b)"

fun Math_round :: "number \<Rightarrow> number" where
  "Math_round (Fin a) = Fin (of_int (round a))"
| "Math_round x = x"

section \<open>Risk score\<close>

record user_preferences =
  privacy_weight :: "number option"
  legal_rights_weight :: "number option"
  convenience_weight :: "number option"

text \<open>
  A weight that is absent takes its default; \<open>categoryMappings[category] || 1.0\<close> replaces
  a weight that is zero or NaN by one.
\<close>

definition getUserAdjustedWeight :: "category_key \<Rightarrow> user_preferences \<Rightarrow> number" where
  "getUserAdjustedWeight category prefs =
     (let privacy = (case privacy_weight prefs of None \<Rightarrow> Fin 0.4 | Some w \<Rightarrow> w);
          legal_rights = (case legal_rights_weight prefs of None \<Rightarrow> Fin 0.4 | Some w \<Rightarrow> w);
          convenience = (case convenience_weight prefs of None \<Rightarrow> Fin 0.2 | Some w \<Rightarrow> w);
          mapped =
            (case category of
               DATA_SHARING_RESALE \<Rightarrow> privacy
             | SURVEILLANCE_TRACKING \<Rightarrow> privacy
             | INDEFINITE_RETENTION \<Rightarrow> privacy
             | FORCED_ARBITRATION \<Rightarrow> legal_rights
             | CLASS_ACTION_WAIVER \<Rightarrow> legal_rights
             | LIABILITY_LIMITATION \<Rightarrow> legal_rights
             | UNILATERAL_MODIFICATION \<Rightarrow> convenience
             | ACCOUNT_TERMINATION \<Rightarrow> convenience)
      in if mapped = Fin 0 \<or> mapped = NaN then Fin 1.0 else mapped)"

text \<open>
  A regular expression that is an alternative of literal words, without flags, tests true
  on a string that includes one of the words.
\<close>

definition testWords :: "jsstring list \<Rightarrow> jsstring \<Rightarrow> bool" where
  "testWords alternatives s = list_ex (includes_js s) alternatives"

definition applyLinguisticModifiers :: "number \<Rightarrow> jsstring \<Rightarrow> number" where
  "applyLinguisticModifiers score text =
     (let lowerText = toLowerCase text;
          m0 = 1.0;
          m1 = (if testWords [js ''will'', js ''must'', js ''shall'', js ''required to''] lowerText
                then m0 + 0.1 else m0);
          m2 = (if testWords [js ''unconditional'', js ''absolute'', js ''irrevocable''] lowerText
                then m1 + 0.15 else m1);
          m3 = (if testWords [js ''may'', js ''might'', js ''could'', js ''optional'',
                              js ''at your discretion''] lowerText
                then m2 - 0.1 else m2)
      in num_mul score (Fin m3))"

text \<open>One match of the scoring loop; the state is \<open>(totalWeightedScore, totalWeight)\<close>.\<close>

definition scoreStep ::
  "engine \<Rightarrow> user_preferences \<Rightarrow> match \<Rightarrow> number \<times> number \<Rightarrow> number \<times> number" where
  "scoreStep this prefs m st =
     (let categoryWeight = Fin (weight_c (categories this (category_m m)));
          userWeight = getUserAdjustedWeight (category_m m) prefs;
          combinedWeight = num_mul categoryWeight userWeight;
          weightedScore = num_mul (Fin (severity_m m)) combinedWeight
      in (num_add (fst st) weightedScore, num_add (snd st) combinedWeight))"

definition scoreTotals ::
  "engine \<Rightarrow> user_preferences \<Rightarrow> clause_analysis list \<Rightarrow> number \<times> number" where
  "scoreTotals this prefs riskyClauses =
     fold (\<lambda>clause st. fold (scoreStep this prefs) (matches_ca clause) st) riskyClauses
       (Fin 0, Fin 0)"

definition calculateRiskScore ::
  "engine \<Rightarrow> clause_analysis list \<Rightarrow> user_preferences \<Rightarrow> number" where
  "calculateRiskScore this clauseAnalyses prefs =
     (if length clauseAnalyses = 0 then Fin 0
      else
        let riskyClauses = filter is_risky_ca clauseAnalyses in
        if length riskyClauses = 0 then Fin 0
        else
          let totals = scoreTotals this prefs riskyClauses;
              totalWeightedScore = fst totals;
              totalWeight = snd totals in
          if totalWeight = Fin 0 then Fin 0
          else
            let rawScore = num_mul (num_div totalWeightedScore totalWeight) (Fin 100);
                text = join (js '' '') (map text_ca clauseAnalyses);
                finalScore = applyLinguisticModifiers rawScore text
            in Math_min (Fin 100) (Math_max (Fin 0) finalScore))"

datatype risk_level = LOW | MEDIUM | HIGH

definition getRiskLevel :: "number \<Rightarrow> risk_level" where
  "getRiskLevel score =
     (if num_le (Fin 70) score then HIGH else if num_le (Fin 40) score then MEDIUM else LOW)"

section \<open>Red flags, category scores, benchmark, confidence\<close>

record red_flag =
  text_rf :: jsstring
  explanation_rf :: string
  implication_rf :: string
  irreversible_rf :: bool
  confidence_rf :: real
  category_rf :: category_key
  category_name_rf :: string

fun generateImplication :: "category_key \<Rightarrow> string" where
  "generateImplication DATA_SHARING_RESALE =
     ''Your personal data could be sold to or shared with unknown third parties for profit.''"
| "generateImplication FORCED_ARBITRATION =
     ''You permanently give up your right to sue this company in court, even if they seriously harm you.''"
| "generateImplication CLASS_ACTION_WAIVER =
     ''You cannot join other users in class-action lawsuits, limiting your legal recourse.''"
| "generateImplication SURVEILLANCE_TRACKING =
     ''The company may extensively monitor your activities across devices and platforms.''"
| "generateImplication UNILATERAL_MODIFICATION =
     ''The company can change the rules at any time without asking for your permission.''"
| "generateImplication ACCOUNT_TERMINATION =
     ''Your account could be deleted at any time without warning or explanation.''"
| "generateImplication LIABILITY_LIMITATION =
     ''The company limits what they have to pay if their mistakes cause you harm.''"
| "generateImplication INDEFINITE_RETENTION =
     ''Your data may be kept forever, even after you delete your account.''"

text \<open>
  \<open>allMatches\<close>: every match of every clause, paired with the text of its clause (the
  property \<open>clause_text\<close> that the source adds to the copy of the match).
\<close>

definition collectMatches :: "clause_analysis list \<Rightarrow> (match \<times> jsstring) list" where
  "collectMatches clauseAnalyses =
     concat (map (\<lambda>clause. map (\<lambda>m. (m, text_ca clause)) (matches_ca clause)) clauseAnalyses)"

text \<open>
  \<open>Array.prototype.sort\<close> is stable; the comparator \<open>scoreB - scoreA\<close> orders by the
  product of severity and confidence, largest first.
\<close>

definition sortMatches :: "(match \<times> jsstring) list \<Rightarrow> (match \<times> jsstring) list" where
  "sortMatches allMatches =
     sort_key (\<lambda>am. - (severity_m (fst am) * confidence_m (fst am))) allMatches"

text \<open>The selection loop; its state is \<open>usedCategories\<close> and \<open>redFlags\<close>.\<close>

fun redFlagLoop ::
  "(match \<times> jsstring) list \<Rightarrow> category_key set \<Rightarrow> red_flag list \<Rightarrow> red_flag list" where
  "redFlagLoop [] usedCategories redFlags = redFlags"
| "redFlagLoop (am # rest) usedCategories redFlags =
     (if category_m (fst am) \<notin> usedCategories \<and> length redFlags < 3 then
        redFlagLoop rest (insert (category_m (fst am)) usedCategories)
          (redFlags @
           [\<lparr>text_rf = matched_text_m (fst am),
             explanation_rf = explanation_m (fst am),
             implication_rf = generateImplication (category_m (fst am)),
             irreversible_rf = irreversible_m (fst am),
             confidence_rf = confidence_m (fst am),
             category_rf = category_m (fst am),
             category_name_rf = category_name_m (fst am)\<rparr>])
      else redFlagLoop rest usedCategories redFlags)"

definition generateRedFlags :: "clause_analysis list \<Rightarrow> red_flag list" where
  "generateRedFlags clauseAnalyses =
     redFlagLoop (sortMatches (collectMatches clauseAnalyses)) {} []"

record category_total =
  name_t :: string
  severity_t :: real
  clause_count_t :: nat

record category_score =
  key_s :: category_key
  name_s :: string
  severity_s :: real

definition calculateCategoryScores :: "engine \<Rightarrow> clause_analysis list \<Rightarrow> category_score list" where
  "calculateCategoryScores this clauseAnalyses =
     (let initial = (\<lambda>key. \<lparr>name_t = name_c (categories this key), severity_t = 0,
                               clause_count_t = 0\<rparr>);
          categoryScores =
            fold (\<lambda>clause scores.
                    fold (\<lambda>m sc. sc(category_m m :=
                            (sc (category_m m))\<lparr>severity_t := severity_t (sc (category_m m)) + severity_m m,
                                                 clause_count_t := clause_count_t (sc (category_m m)) + 1\<rparr>))
                         (matches_ca clause) scores)
                 clauseAnalyses initial
      in map (\<lambda>key. \<lparr>key_s = key, name_s = name_t (categoryScores key),
                       severity_s =
                         (severity_t (categoryScores key) / real (clause_count_t (categoryScores key))) * 100\<rparr>)
           (filter (\<lambda>key. clause_count_t (categoryScores key) > 0) category_keys))"

record benchmark_result =
  category_br :: string
  percentage_br :: number
  average_score_br :: real
  comparison_br :: string

text \<open>
  \<open>new URL(url).hostname\<close> belongs to the platform and is a parameter: \<open>hostname u\<close> is
  the host name of the URL \<open>u\<close>, or \<open>None\<close> when the constructor throws. A URL that is
  absent or the empty string is not parsed. \<open>Math.round\<close> rounds a half upwards, as
  \<open>round\<close> does on a finite value.
\<close>

definition benchmarkCategory :: "jsstring \<Rightarrow> benchmark_key" where
  "benchmarkCategory domain =
     (if includes_js domain (js ''facebook'') \<or> includes_js domain (js ''twitter'') \<or>
         includes_js domain (js ''instagram'') \<or> includes_js domain (js ''tiktok'')
      then SOCIAL_MEDIA
      else if includes_js domain (js ''amazon'') \<or> includes_js domain (js ''ebay'') \<or>
              includes_js domain (js ''shop'') \<or> includes_js domain (js ''buy'')
      then E_COMMERCE
      else if includes_js domain (js ''bank'') \<or> includes_js domain (js ''finance'') \<or>
              includes_js domain (js ''paypal'') \<or> includes_js domain (js ''invest'')
      then FINANCIAL
      else TECHNOLOGY)"

definition benchmarkDomain ::
  "(jsstring \<Rightarrow> jsstring option) \<Rightarrow> jsstring option \<Rightarrow> error + jsstring" where
  "benchmarkDomain hostname url =
     (case url of
        None \<Rightarrow> Inr []
      | Some u \<Rightarrow>
          if u = [] then Inr []
          else (case hostname u of None \<Rightarrow> Inl InvalidURL | Some h \<Rightarrow> Inr (toLowerCase h)))"

definition generateBenchmark ::
  "(jsstring \<Rightarrow> jsstring option) \<Rightarrow> engine \<Rightarrow> jsstring option \<Rightarrow> number \<Rightarrow>
   error + benchmark_result" where
  "generateBenchmark hostname this url riskScore =
     (case benchmarkDomain hostname url of
        Inl e \<Rightarrow> Inl e
      | Inr domain \<Rightarrow>
          let benchmark = benchmarks this (benchmarkCategory domain);
              percentage =
                Math_round
                  (num_mul
                     (num_div (num_sub riskScore (Fin (average_risk_score benchmark)))
                        (Fin (average_risk_score benchmark)))
                     (Fin 100))
          in Inr \<lparr>category_br = name_b benchmark,
                  percentage_br = percentage,
                  average_score_br = average_risk_score benchmark,
                  comparison_br = (if num_lt (Fin 0) percentage then ''worse'' else ''better'')\<rparr>)"

definition calculateConfidence :: "clause_analysis list \<Rightarrow> real" where
  "calculateConfidence clauseAnalyses =
     (if length clauseAnalyses = 0 then 1.0
      else
        let riskyClauses = filter is_risky_ca clauseAnalyses in
        if length riskyClauses = 0 then 1.0
        else
          let confidences = concat (map (\<lambda>clause. map confidence_m (matches_ca clause)) riskyClauses)
          in if length confidences > 0
             then foldl (+) 0 confidences / real (length confidences)
             else 1.0)"

section \<open>The entry point\<close>

record options =
  url :: "jsstring option"
  language :: "jsstring option"
  user_preferences :: "user_preferences option"

record metadata =
  url_md :: "jsstring option"
  language_md :: jsstring
  text_length :: nat
  deterministic_analysis :: bool

record analysis_result =
  risk_score :: number
  risk_level :: risk_level
  red_flags :: "red_flag list"
  category_scores :: "category_score list"
  benchmark :: benchmark_result
  clauses_analyzed :: nat
  confidence :: real
  metadata :: metadata

text \<open>\<open>clauses.map(clause => this.analyzeClause(clause))\<close>, ending at the first error.\<close>

fun analyzeClauses :: "engine \<Rightarrow> jsstring list \<Rightarrow> error + clause_analysis list" where
  "analyzeClauses this [] = Inr []"
| "analyzeClauses this (clause # rest) =
     (case analyzeClause this clause of
        Inl e \<Rightarrow> Inl e
      | Inr a \<Rightarrow>
          (case analyzeClauses this rest of Inl e \<Rightarrow> Inl e | Inr as \<Rightarrow> Inr (a # as)))"

definition defaultPreferences :: user_preferences where
  "defaultPreferences =
     \<lparr>privacy_weight = None, legal_rights_weight = None, convenience_weight = None\<rparr>"

definition defaultOptions :: options where
  "defaultOptions = \<lparr>url = None, language = None, user_preferences = None\<rparr>"

definition analyze ::
  "(jsstring \<Rightarrow> jsstring option) \<Rightarrow> engine \<Rightarrow> jsstring \<Rightarrow> options \<Rightarrow> error + analysis_result" where
  "analyze hostname this text opts =
     (let lang = (case language opts of None \<Rightarrow> js ''en'' | Some l \<Rightarrow> l);
          prefs = (case user_preferences opts of None \<Rightarrow> defaultPreferences | Some p \<Rightarrow> p);
          normalizedText = preprocessText text;
          clauses = extractClauses normalizedText
      in (case analyzeClauses this clauses of
            Inl e \<Rightarrow> Inl e
          | Inr clauseAnalyses \<Rightarrow>
              (let riskScore = calculateRiskScore this clauseAnalyses prefs;
                   riskLevel = getRiskLevel riskScore;
                   redFlags = generateRedFlags clauseAnalyses;
                   categoryScores = calculateCategoryScores this clauseAnalyses
               in (case generateBenchmark hostname this (url opts) riskScore of
                     Inl e \<Rightarrow> Inl e
                   | Inr bm \<Rightarrow>
                       Inr \<lparr>risk_score = riskScore,
                            risk_level = riskLevel,
                            red_flags = redFlags,
                            category_scores = categoryScores,
                            benchmark = bm,
                            clauses_analyzed = length clauseAnalyses,
                            confidence = calculateConfidence clauseAnalyses,
                            metadata =
                              \<lparr>url_md = url opts, language_md = lang,
                               text_length = length text,
                               deterministic_analysis = True\<rparr>\<rparr>))))"

section \<open>Notions used by the statements\<close>

text \<open>
  A keyword pattern matches a clause when the regular expression built from it tests
  true on the lower-cased clause; \<open>matchCount\<close> counts the keyword patterns of a pattern set
  that match; \<open>matchOf\<close> is the match that \<open>analyzeClause\<close> records for a category.
\<close>

definition keywordMatches :: "jsstring \<Rightarrow> jsstring \<Rightarrow> bool" where
  "keywordMatches clause keyword =
     (case keywordRegExp keyword of
        Inl e \<Rightarrow> False
      | Inr regex \<Rightarrow> test regex (toLowerCase clause))"

definition matchCount :: "jsstring \<Rightarrow> pattern \<Rightarrow> nat" where
  "matchCount clause pattern = length (filter (keywordMatches clause) (keywords_p pattern))"

definition matchOf :: "engine \<Rightarrow> jsstring \<Rightarrow> category_key \<Rightarrow> match" where
  "matchOf this clause key =
     \<lparr>category_m = key,
      category_name_m = name_c (categories this key),
      severity_m = severity_p (patterns this key),
      confidence_m = min 0.95 (0.6 + 0.15 * real (matchCount clause (patterns this key))),
      matched_text_m = clause,
      matched_keywords_m = filter (keywordMatches clause) (keywords_p (patterns this key)),
      irreversible_m = irreversible_c (categories this key),
      explanation_m = generateExplanation key\<rparr>"

text \<open>
  \<open>clauseMatches\<close> lists the matches of a clause in the order of the categories, and
  \<open>analysisOf\<close> is the clause analysis built from them; \<open>analysesOf\<close> are the clause
  analyses of a text and \<open>preferencesOf\<close> the preferences in force.
\<close>

definition clauseMatches :: "engine \<Rightarrow> jsstring \<Rightarrow> match list" where
  "clauseMatches this clause =
     map (matchOf this clause)
       (filter (\<lambda>key. 0 < matchCount clause (patterns this key)) category_keys)"

definition analysisOf :: "engine \<Rightarrow> jsstring \<Rightarrow> clause_analysis" where
  "analysisOf this clause =
     \<lparr>text_ca = clause,
      matches_ca = clauseMatches this clause,
      is_risky_ca = (length (clauseMatches this clause) > 0),
      highest_risk_ca =
        (if length (clauseMatches this clause) > 0
         then foldl max (severity_m (hd (clauseMatches this clause)))
                (map severity_m (tl (clauseMatches this clause)))
         else 0)\<rparr>"

definition analysesOf :: "engine \<Rightarrow> jsstring \<Rightarrow> clause_analysis list" where
  "analysesOf this text = map (analysisOf this) (extractClauses (preprocessText text))"

definition preferencesOf :: "options \<Rightarrow> user_preferences" where
  "preferencesOf opts =
     (case user_preferences opts of None \<Rightarrow> defaultPreferences | Some p \<Rightarrow> p)"

section \<open>Evaluation rules\<close>

text \<open>
  The rules that evaluate the string and regular-expression functions on literals. They
  are used alone (\<open>simp only\<close>), which keeps the evaluation of a whole clause fast.
\<close>

lemmas fast_eval =
  js_def list.map of_char_Char horner_sum_simps of_bool_eq
  mult_1 mult_1_right one_add_one numeral_plus_one one_plus_numeral
  isWhiteSpace_def toLowerCase.simps toLowerCaseUnit_def canonicalize_def
  keywordRegExp_def replaceHyphenSpace_def hyphenSpaceClass_def RegExp_i_def consAtom_def
  rangeItems_def isSyntaxCharacter_def keywordMatches_def testWords_def matchCount_def
  tokens.simps classItem.simps parse.simps itemMatches.simps atomMatches.simps
  matchHere.simps test.simps startsWith.simps includes_js.simps
  setupPatterns.simps pattern.simps
  concat.simps append.simps filter.simps list.sel list.inject list.distinct list.case
  list_ex_Nil_iff list_ex_Cons_iff list.pred_inject
  sum.case option.case prod.case token.inject token.distinct class_item.case
  class_item.distinct class_item.inject category_key.case sum.disc
  rel_simps arith_simps diff_nat_numeral nat_numeral
  if_True if_False simp_thms

section \<open>The keyword loop\<close>

lemma keywordLoop_catalog:
  "list_all (\<lambda>kw. \<not> isl (keywordRegExp kw)) kws \<Longrightarrow>
   keywordLoop (toLowerCase clause) kws st =
     Inr (fst st @ filter (keywordMatches clause) kws,
          snd st + length (filter (keywordMatches clause) kws))"
proof (induction kws arbitrary: st)
  case Nil
  show ?case by simp
next
  case (Cons kw kws)
  from Cons.prems obtain re where re: "keywordRegExp kw = Inr re"
    by (cases "keywordRegExp kw") auto
  from Cons.prems have rest: "list_all (\<lambda>kw. \<not> isl (keywordRegExp kw)) kws"
    by simp
  show ?case
    by (simp add: re Cons.IH [OF rest] keywordMatches_def)
qed

lemma catalog_regexps:
  "list_all (\<lambda>kw. \<not> isl (keywordRegExp kw)) (keywords_p (setupPatterns key))"
  by (cases key) (simp_all only: fast_eval cong: if_weak_cong)

lemma findPatternMatch_catalog:
  "findPatternMatch clause (setupPatterns key) =
     Inr (if matchCount clause (setupPatterns key) = 0 then None
          else Some \<lparr>severity_pm = severity_p (setupPatterns key),
                     confidence_pm =
                       min 0.95 (0.6 + 0.15 * real (matchCount clause (setupPatterns key))),
                     keywords_pm =
                       filter (keywordMatches clause) (keywords_p (setupPatterns key))\<rparr>)"
  by (simp add: findPatternMatch_def keywordLoop_catalog [OF catalog_regexps] matchCount_def
      mult.commute)

lemma categoryLoop_catalog:
  "categoryLoop constructor clause keys =
     Inr (map (matchOf constructor clause)
            (filter (\<lambda>key. 0 < matchCount clause (setupPatterns key)) keys))"
  by (induction keys) (simp_all add: constructor_def findPatternMatch_catalog matchOf_def)

section \<open>The engine on its catalog\<close>

lemma constructor_sel:
  "categories constructor = setupCategories"
  "patterns constructor = setupPatterns"
  "benchmarks constructor = setupBenchmarks"
  by (simp_all add: constructor_def)

lemma analyzeClause_catalog:
  "analyzeClause constructor clause = Inr (analysisOf constructor clause)"
  by (simp add: analyzeClause_def categoryLoop_catalog analysisOf_def clauseMatches_def
      constructor_sel)

lemma analyzeClauses_catalog:
  "analyzeClauses constructor clauses = Inr (map (analysisOf constructor) clauses)"
  by (induction clauses) (simp_all add: analyzeClause_catalog)

lemma benchmarkDomain_error: "benchmarkDomain hostname u = Inl e \<Longrightarrow> e = InvalidURL"
  by (auto simp: benchmarkDomain_def split: option.splits if_splits)

lemma generateBenchmark_error:
  "generateBenchmark hostname this u score = Inl e \<Longrightarrow> e = InvalidURL"
  by (auto simp: generateBenchmark_def Let_def split: sum.splits dest: benchmarkDomain_error)

lemma analyze_catalog:
  "analyze hostname constructor text opts =
     (case generateBenchmark hostname constructor (url opts)
             (calculateRiskScore constructor (analysesOf constructor text) (preferencesOf opts)) of
        Inl e \<Rightarrow> Inl e
      | Inr bm \<Rightarrow>
          Inr \<lparr>risk_score =
                 calculateRiskScore constructor (analysesOf constructor text) (preferencesOf opts),
               risk_level =
                 getRiskLevel
                   (calculateRiskScore constructor (analysesOf constructor text) (preferencesOf opts)),
               red_flags = generateRedFlags (analysesOf constructor text),
               category_scores = calculateCategoryScores constructor (analysesOf constructor text),
               benchmark = bm,
               clauses_analyzed = length (analysesOf constructor text),
               confidence = calculateConfidence (analysesOf constructor text),
               metadata =
                 \<lparr>url_md = url opts,
                  language_md = (case language opts of None \<Rightarrow> js ''en'' | Some l \<Rightarrow> l),
                  text_length = length text,
                  deterministic_analysis = True\<rparr>\<rparr>)"
  unfolding analyze_def Let_def analyzeClauses_catalog analysesOf_def preferencesOf_def
  by simp

lemma analyze_Inl: "analyze hostname constructor text opts = Inl e \<Longrightarrow> e = InvalidURL"
  by (auto simp: analyze_catalog split: sum.splits dest: generateBenchmark_error)

section \<open>Score, level and red flags\<close>

lemma clamp_cases:
  "Math_min (Fin 100) (Math_max (Fin 0) y) = NaN \<or>
   (\<exists>x. Math_min (Fin 100) (Math_max (Fin 0) y) = Fin x \<and> 0 \<le> x \<and> x \<le> 100)"
  by (cases y) simp_all

lemma calculateRiskScore_cases:
  "calculateRiskScore this cas prefs = NaN \<or>
   (\<exists>x. calculateRiskScore this cas prefs = Fin x \<and> 0 \<le> x \<and> x \<le> 100)"
  using clamp_cases by (simp add: calculateRiskScore_def Let_def)



lemma redFlagLoop_invariant:
  "length flags \<le> 3 \<Longrightarrow> distinct (map category_rf flags) \<Longrightarrow>
   set (map category_rf flags) \<subseteq> used \<Longrightarrow>
   length (redFlagLoop ams used flags) \<le> 3 \<and>
   distinct (map category_rf (redFlagLoop ams used flags))"
proof (induction ams arbitrary: used flags)
  case Nil
  then show ?case by simp
next
  case (Cons am ams)
  show ?case
  proof (cases "category_m (fst am) \<notin> used \<and> length flags < 3")
    case True
    let ?flag = "\<lparr>text_rf = matched_text_m (fst am),
             explanation_rf = explanation_m (fst am),
             implication_rf = generateImplication (category_m (fst am)),
             irreversible_rf = irreversible_m (fst am),
             confidence_rf = confidence_m (fst am),
             category_rf = category_m (fst am),
             category_name_rf = category_name_m (fst am)\<rparr>"
    have "length (flags @ [?flag]) \<le> 3" using True by simp
    moreover have "distinct (map category_rf (flags @ [?flag]))"
      using True Cons.prems by auto
    moreover have "set (map category_rf (flags @ [?flag])) \<subseteq> insert (category_m (fst am)) used"
      using Cons.prems by auto
    ultimately show ?thesis
      using Cons.IH [of "flags @ [?flag]" "insert (category_m (fst am)) used"] True by simp
  next
    case False
    then show ?thesis using Cons.IH [OF Cons.prems] by auto
  qed
qed

lemma generateRedFlags_bound:
  "length (generateRedFlags cas) \<le> 3 \<and> distinct (map category_rf (generateRedFlags cas))"
  unfolding generateRedFlags_def by (rule redFlagLoop_invariant) simp_all


section \<open>Two texts evaluated\<close>

lemma sharing_clauses:
  "extractClauses (preprocessText (js ''We may share your data with third party advertisers.'')) =
     [js ''We may share your data with third party advertisers.'']"
  by (simp add: js_def extractClauses_def preprocessText_def trim_def isWhiteSpace_def
      straightenSingle_def straightenDouble_def splitMatch_def isTerminator_def)

lemma sharing_matchCount:
  "matchCount (js ''We may share your data with third party advertisers.'') (setupPatterns key) = 0"
  apply (cases key)
         apply (simp_all only: fast_eval cong: if_weak_cong)
         apply simp_all
  done

lemma arbitration_clauses:
  "extractClauses (preprocessText (js ''You must agree to mandatory arbitration and waive right to jury trial and waive right to class action.'')) =
     [js ''You must agree to mandatory arbitration and waive right to jury trial and waive right to class action.'']"
  by (simp add: js_def extractClauses_def preprocessText_def trim_def isWhiteSpace_def
      straightenSingle_def straightenDouble_def splitMatch_def isTerminator_def)

lemma arbitration_matchCount:
  "matchCount (js ''You must agree to mandatory arbitration and waive right to jury trial and waive right to class action.'') (setupPatterns key) =
     (case key of FORCED_ARBITRATION \<Rightarrow> 2 | CLASS_ACTION_WAIVER \<Rightarrow> 1 | _ \<Rightarrow> 0)"
  apply (cases key)
         apply (simp_all only: fast_eval cong: if_weak_cong)
         apply simp_all
  done

lemma arbitration_modifier:
  "applyLinguisticModifiers score (js ''You must agree to mandatory arbitration and waive right to jury trial and waive right to class action.'') =
     num_mul score (Fin 1.1)"
  apply (simp only: applyLinguisticModifiers_def Let_def fast_eval cong: if_weak_cong)
  apply simp
  done

lemma sharing_modifier:
  "applyLinguisticModifiers score (js ''We may share your data with third party advertisers.'') =
     num_mul score (Fin 0.9)"
  apply (simp only: applyLinguisticModifiers_def Let_def fast_eval cong: if_weak_cong)
  apply simp
  done

lemma category_keys_all: "distinct category_keys \<and> set category_keys = UNIV"
proof -
  have "key \<in> set category_keys" for key
    by (cases key) (simp_all add: category_keys_def)
  then show ?thesis by (auto simp: category_keys_def)
qed

lemma matchOf_sel:
  "category_m (matchOf this clause key) = key"
  "severity_m (matchOf this clause key) = severity_p (patterns this key)"
  "confidence_m (matchOf this clause key) =
     min 0.95 (0.6 + 0.15 * real (matchCount clause (patterns this key)))"
  "matched_text_m (matchOf this clause key) = clause"
  by (simp_all add: matchOf_def)

lemma arbitration_matches:
  "clauseMatches constructor (js ''You must agree to mandatory arbitration and waive right to jury trial and waive right to class action.'') =
     [matchOf constructor (js ''You must agree to mandatory arbitration and waive right to jury trial and waive right to class action.'') FORCED_ARBITRATION,
      matchOf constructor (js ''You must agree to mandatory arbitration and waive right to jury trial and waive right to class action.'') CLASS_ACTION_WAIVER]"
  by (simp add: clauseMatches_def category_keys_def constructor_sel arbitration_matchCount)

lemma arbitration_analyses:
  "analysesOf constructor (js ''You must agree to mandatory arbitration and waive right to jury trial and waive right to class action.'') =
     [analysisOf constructor (js ''You must agree to mandatory arbitration and waive right to jury trial and waive right to class action.'')]"
  by (simp add: analysesOf_def arbitration_clauses)

lemma arbitration_risk_score:
  "calculateRiskScore constructor
     (analysesOf constructor (js ''You must agree to mandatory arbitration and waive right to jury trial and waive right to class action.''))
     defaultPreferences = Fin 100"
  by (simp add: arbitration_analyses calculateRiskScore_def analysisOf_def arbitration_matches
      scoreTotals_def scoreStep_def matchOf_sel(1,2) constructor_sel getUserAdjustedWeight_def
      defaultPreferences_def arbitration_modifier Let_def)

lemma arbitration_risk_score_infinite:
  "calculateRiskScore constructor
     (analysesOf constructor (js ''You must agree to mandatory arbitration and waive right to jury trial and waive right to class action.''))
     \<lparr>privacy_weight = None, legal_rights_weight = Some PosInf, convenience_weight = None\<rparr> =
     NaN"
  by (simp add: arbitration_analyses calculateRiskScore_def analysisOf_def arbitration_matches
      scoreTotals_def scoreStep_def matchOf_sel(1,2) constructor_sel getUserAdjustedWeight_def
      arbitration_modifier Let_def)

lemma benchmark_no_url:
  "generateBenchmark hostname constructor None score =
     Inr \<lparr>category_br = ''Technology Companies'',
          percentage_br = Math_round (num_mul (num_div (num_sub score (Fin 50)) (Fin 50)) (Fin 100)),
          average_score_br = 50,
          comparison_br =
            (if num_lt (Fin 0)
                  (Math_round (num_mul (num_div (num_sub score (Fin 50)) (Fin 50)) (Fin 100)))
             then ''worse'' else ''better'')\<rparr>"
  by (simp add: generateBenchmark_def benchmarkDomain_def benchmarkCategory_def js_def
      constructor_sel Let_def)

lemma analyze_no_url:
  "url opts = None \<Longrightarrow>
   analyze hostname constructor text opts =
     Inr \<lparr>risk_score =
            calculateRiskScore constructor (analysesOf constructor text) (preferencesOf opts),
          risk_level =
            getRiskLevel
              (calculateRiskScore constructor (analysesOf constructor text) (preferencesOf opts)),
          red_flags = generateRedFlags (analysesOf constructor text),
          category_scores = calculateCategoryScores constructor (analysesOf constructor text),
          benchmark =
            \<lparr>category_br = ''Technology Companies'',
             percentage_br =
               Math_round
                 (num_mul
                    (num_div
                       (num_sub
                          (calculateRiskScore constructor (analysesOf constructor text)
                             (preferencesOf opts))
                          (Fin 50))
                       (Fin 50))
                    (Fin 100)),
             average_score_br = 50,
             comparison_br =
               (if num_lt (Fin 0)
                     (Math_round
                        (num_mul
                           (num_div
                              (num_sub
                                 (calculateRiskScore constructor (analysesOf constructor text)
                                    (preferencesOf opts))
                                 (Fin 50))
                              (Fin 50))
                           (Fin 100)))
                then ''worse'' else ''better'')\<rparr>,
          clauses_analyzed = length (analysesOf constructor text),
          confidence = calculateConfidence (analysesOf constructor text),
          metadata =
            \<lparr>url_md = None,
             language_md = (case language opts of None \<Rightarrow> js ''en'' | Some l \<Rightarrow> l),
             text_length = length text,
             deterministic_analysis = True\<rparr>\<rparr>"
  by (simp add: analyze_catalog benchmark_no_url)

lemma default_preferences: "preferencesOf defaultOptions = defaultPreferences"
  by (simp add: preferencesOf_def defaultOptions_def)

lemma arbitration_confidences:
  "confidence_m (matchOf constructor (js ''You must agree to mandatory arbitration and waive right to jury trial and waive right to class action.'') FORCED_ARBITRATION) = 0.9"
  "confidence_m (matchOf constructor (js ''You must agree to mandatory arbitration and waive right to jury trial and waive right to class action.'') CLASS_ACTION_WAIVER) = 0.75"
  by (simp_all add: matchOf_sel(3) constructor_sel arbitration_matchCount del: setupPatterns.simps)

lemma arbitration_red_flags:
  "map category_rf
     (generateRedFlags (analysesOf constructor (js ''You must agree to mandatory arbitration and waive right to jury trial and waive right to class action.''))) =
     [FORCED_ARBITRATION, CLASS_ACTION_WAIVER]"
  by (simp add: arbitration_analyses generateRedFlags_def collectMatches_def sortMatches_def
      analysisOf_def arbitration_matches matchOf_sel(1,2) constructor_sel
      arbitration_confidences)

section \<open>Texts without a match\<close>

lemma collapseWhiteSpace_blank:
  "list_all isWhiteSpace s \<Longrightarrow>
   collapseWhiteSpace inRun s = [] \<or> collapseWhiteSpace inRun s = [32]"
proof (induction s arbitrary: inRun)
  case Nil
  show ?case by simp
next
  case (Cons c cs)
  then have c: "isWhiteSpace c" and cs: "list_all isWhiteSpace cs" by simp_all
  have run: "collapseWhiteSpace True cs = []" if "list_all isWhiteSpace cs" for cs
    using that by (induction cs) simp_all
  show ?case using c run [OF cs] by simp
qed

lemma blank_no_clauses:
  assumes "list_all isWhiteSpace text"
  shows "extractClauses (preprocessText text) = []"
proof -
  have ws: "isWhiteSpace 32" by (simp add: isWhiteSpace_def)
  have "preprocessText text = []"
    using collapseWhiteSpace_blank [OF assms, of False] ws
    by (auto simp: preprocessText_def trim_def straightenSingle_def straightenDouble_def)
  then show ?thesis by (simp add: extractClauses_def trim_def)
qed

lemma no_match_analysis:
  assumes "\<forall>key. matchCount clause (patterns constructor key) = 0"
  shows "matches_ca (analysisOf constructor clause) = []"
    and "\<not> is_risky_ca (analysisOf constructor clause)"
  using assms by (simp_all add: analysisOf_def clauseMatches_def)

lemma no_match_totals:
  assumes "\<forall>a \<in> set cas. matches_ca a = [] \<and> \<not> is_risky_ca a"
  shows "calculateRiskScore this cas prefs = Fin 0"
    and "generateRedFlags cas = []"
    and "calculateConfidence cas = 1"
proof -
  from assms have risky: "filter is_risky_ca cas = []"
    by (induction cas) simp_all
  from assms have collected: "collectMatches cas = []"
    by (induction cas) (simp_all add: collectMatches_def)
  show "calculateRiskScore this cas prefs = Fin 0"
    by (simp add: calculateRiskScore_def risky)
  show "generateRedFlags cas = []"
    by (simp add: generateRedFlags_def collected sortMatches_def)
  show "calculateConfidence cas = 1"
    by (simp add: calculateConfidence_def risky)
qed

lemma sharing_analyses:
  "analysesOf constructor (js ''We may share your data with third party advertisers.'') =
     [analysisOf constructor (js ''We may share your data with third party advertisers.'')]"
  by (simp add: analysesOf_def sharing_clauses)

lemma sharing_matches:
  "clauseMatches constructor (js ''We may share your data with third party advertisers.'') = []"
  by (simp add: clauseMatches_def constructor_sel sharing_matchCount)

text \<open>
  The keyword written \<open>'third[-\s]party advertisers'\<close> in the source: the regular
  expression built from it asks for the two characters \<open>s]\<close> after the separator, so it
  tests true on \<open>third s]party advertisers\<close> and not on \<open>third party advertisers\<close>,
  whereas a keyword without brackets accepts a hyphen for its space.
\<close>

lemma third_party_regexp:
  "keywordRegExp (js ''third[-s]party advertisers'') =
     Inr [Lit 116, Lit 104, Lit 105, Lit 114, Lit 100,
          Class [Single 91, Single 45, Space], Lit 115, Lit 93, Lit 112, Lit 97,
          Lit 114, Lit 116, Lit 121, Class [Single 45, Space], Lit 97, Lit 100,
          Lit 118, Lit 101, Lit 114, Lit 116, Lit 105, Lit 115, Lit 101,
          Lit 114, Lit 115]"
  by (simp only: fast_eval cong: if_weak_cong)

lemma third_party_matches:
  "\<not> keywordMatches (js ''third party advertisers'') (js ''third[-s]party advertisers'') \<and>
   \<not> keywordMatches (js ''third-party advertisers'') (js ''third[-s]party advertisers'') \<and>
   keywordMatches (js ''third s]party advertisers'') (js ''third[-s]party advertisers'') \<and>
   keywordMatches (js ''We sell to Data-Brokers'') (js ''data brokers'')"
  by (simp only: fast_eval cong: if_weak_cong)

text \<open>
  Lower-casing comes before the test: the Kelvin sign U+212A in place of the \<open>k\<close> of
  \<open>data brokers\<close> becomes \<open>k\<close> and the keyword matches.
\<close>

lemma kelvin_sign_matches:
  "keywordMatches [100, 97, 116, 97, 32, 98, 114, 111, 8490, 101, 114, 115] (js ''data brokers'')"
  by (simp only: fast_eval cong: if_weak_cong)

section \<open>One match per category\<close>

lemma filter_key:
  "distinct keys \<Longrightarrow>
   filter (\<lambda>k. k = key) (filter P keys) = (if key \<in> set keys \<and> P key then [key] else [])"
  by (induction keys) auto

lemma clauseMatches_key:
  "filter (\<lambda>m. category_m m = key) (clauseMatches constructor clause) =
     (if 0 < matchCount clause (setupPatterns key) then [matchOf constructor clause key] else [])"
proof -
  have "filter (\<lambda>m. category_m m = key) (clauseMatches constructor clause) =
        map (matchOf constructor clause)
          (filter (\<lambda>k. k = key)
             (filter (\<lambda>k. 0 < matchCount clause (setupPatterns k)) category_keys))"
    by (simp add: clauseMatches_def filter_map comp_def matchOf_sel(1) constructor_sel)
  also have "\<dots> =
      (if 0 < matchCount clause (setupPatterns key) then [matchOf constructor clause key] else [])"
    using category_keys_all by (simp add: filter_key del: filter_filter)
  finally show ?thesis .
qed

section \<open>Benchmark\<close>

lemma bucket_average_positive: "0 < average_risk_score (setupBenchmarks key)"
  by (cases key) simp_all

lemma round_positive:
  fixes score avg :: real
  assumes "0 < avg" and "0 < round (((score - avg) / avg) * 100)"
  shows "avg < score"
proof (rule ccontr)
  assume "\<not> avg < score"
  then have "score - avg \<le> 0" by simp
  then have "(score - avg) / avg \<le> 0"
    using assms(1) by (rule divide_nonpos_pos)
  then have "((score - avg) / avg) * 100 \<le> 0"
    by (rule mult_nonpos_nonneg) simp
  then have "round (((score - avg) / avg) * 100) \<le> round (0::real)"
    by (rule round_mono)
  with assms(2) show False by simp
qed

lemma percentage_positive:
  assumes "0 < avg"
    and "num_lt (Fin 0) (Math_round (num_mul (num_div (num_sub score (Fin avg)) (Fin avg)) (Fin 100)))"
  shows "num_lt (Fin avg) score"
proof (cases score)
  case (Fin x)
  with assms have "0 < round (((x - avg) / avg) * 100)"
    by (simp add: num_sub_def)
  with assms(1) have "avg < x" by (rule round_positive)
  with Fin show ?thesis by simp
next
  case PosInf
  then show ?thesis by simp
next
  case NegInf
  with assms show ?thesis by (simp add: num_sub_def)
next
  case NaN
  with assms show ?thesis by (simp add: num_sub_def)
qed

section \<open>The claims\<close>

text \<open>
  C8. The weights of the eight entries of the category catalog are 0.18, 0.16, 0.14, 0.15,
  0.12, 0.08, 0.09 and 0.08, in the order of the catalog, and their sum is exactly 1. The
  catalog is a constant of the engine: no input enters the statement.
\<close>

theorem category_weights_sum:
  "map (\<lambda>key. weight_c (categories constructor key)) category_keys =
     [0.18, 0.16, 0.14, 0.15, 0.12, 0.08, 0.09, 0.08] \<and>
   sum_list (map (\<lambda>key. weight_c (categories constructor key)) category_keys) = 1 \<and>
   distinct category_keys \<and> set category_keys = UNIV"
  using category_keys_all by (simp add: constructor_sel category_keys_def)

theorem category_weights_sum_witness:
  "sum_list (map (\<lambda>key. weight_c (setupCategories key)) category_keys) = 1 \<and>
   length category_keys = 8"
  using category_weights_sum by (simp add: constructor_sel category_keys_def)

text \<open>
  C3. The score leaves the range: with the preference \<open>legal_rights_weight\<close> infinite (the
  value of a JSON number such as \<open>1e999\<close>), the text about arbitration gets the score NaN.
  Both totals of the scoring loop are infinite, their quotient is NaN, and \<open>Math.max\<close> and
  \<open>Math.min\<close> return NaN for NaN, so the result is neither at least 0 nor at most 100.
\<close>

theorem risk_score_not_in_range:
  "\<exists>r. analyze hostname constructor (js ''You must agree to mandatory arbitration and waive right to jury trial and waive right to class action.'') \<lparr>url = None, language = None, user_preferences = Some \<lparr>privacy_weight = None, legal_rights_weight = Some PosInf, convenience_weight = None\<rparr>\<rparr> = Inr r \<and>
       risk_score r = NaN \<and>
       \<not> (num_le (Fin 0) (risk_score r) \<and> num_le (risk_score r) (Fin 100))"
  by (simp add: analyze_no_url preferencesOf_def arbitration_risk_score_infinite)

theorem risk_score_not_in_range_witness:
  "\<exists>r. analyze (\<lambda>u. None) constructor (js ''You must agree to mandatory arbitration and waive right to jury trial and waive right to class action.'') \<lparr>url = None, language = None, user_preferences = Some \<lparr>privacy_weight = None, legal_rights_weight = Some PosInf, convenience_weight = None\<rparr>\<rparr> = Inr r \<and>
       risk_score r = NaN"
  using risk_score_not_in_range [of "\<lambda>u. None"] by blast

text \<open>
  X1. For every text and all options, the engine either stops at the URL of the options
  or returns a result whose \<open>risk_score\<close> is NaN or a number between 0 and 100.
\<close>

theorem risk_score_nan_or_range:
  "case analyze hostname constructor text opts of
     Inl e \<Rightarrow> e = InvalidURL
   | Inr r \<Rightarrow> risk_score r = NaN \<or> (\<exists>x. risk_score r = Fin x \<and> 0 \<le> x \<and> x \<le> 100)"
  using calculateRiskScore_cases [of constructor "analysesOf constructor text" "preferencesOf opts"]
  by (auto simp: analyze_catalog split: sum.splits dest: generateBenchmark_error)

theorem risk_score_nan_or_range_witness:
  "\<exists>r. analyze (\<lambda>u. None) constructor (js ''You must agree to mandatory arbitration and waive right to jury trial and waive right to class action.'') defaultOptions = Inr r \<and>
       risk_score r = Fin 100"
  using risk_score_nan_or_range [of "\<lambda>u. None" "js ''You must agree to mandatory arbitration and waive right to jury trial and waive right to class action.''" defaultOptions]
  by (simp add: analyze_no_url defaultOptions_def default_preferences [unfolded defaultOptions_def]
      arbitration_risk_score)

text \<open>
  C4. For every text and all options, the \<open>red_flags\<close> of a returned result have at most
  three entries, and no two entries have the same category.
\<close>

theorem red_flags_bound:
  "case analyze hostname constructor text opts of
     Inl e \<Rightarrow> e = InvalidURL
   | Inr r \<Rightarrow> length (red_flags r) \<le> 3 \<and> distinct (map category_rf (red_flags r))"
  using generateRedFlags_bound [of "analysesOf constructor text"]
  by (auto simp: analyze_catalog split: sum.splits dest: generateBenchmark_error)

theorem red_flags_bound_witness:
  "\<exists>r. analyze (\<lambda>u. None) constructor (js ''You must agree to mandatory arbitration and waive right to jury trial and waive right to class action.'') defaultOptions = Inr r \<and>
       map category_rf (red_flags r) = [FORCED_ARBITRATION, CLASS_ACTION_WAIVER] \<and>
       length (red_flags r) \<le> 3 \<and> distinct (map category_rf (red_flags r))"
  using red_flags_bound [of "\<lambda>u. None" "js ''You must agree to mandatory arbitration and waive right to jury trial and waive right to class action.''" defaultOptions]
  by (simp add: analyze_no_url defaultOptions_def arbitration_red_flags)




text \<open>
  C6. On the text about arbitration, with the default options, the single clause has a
  match of FORCED_ARBITRATION and a match of CLASS_ACTION_WAIVER, the modifier applied to
  the raw score is 1.1 (the obligation word alone), and the result has the score 100
  and the level HIGH.
\<close>

theorem arbitration_scenario:
  "\<exists>a r.
     analyzeClauses constructor
       (extractClauses (preprocessText (js ''You must agree to mandatory arbitration and waive right to jury trial and waive right to class action.''))) = Inr [a] \<and>
     map category_m (matches_ca a) = [FORCED_ARBITRATION, CLASS_ACTION_WAIVER] \<and>
     (\<forall>score. applyLinguisticModifiers score (join (js '' '') (map text_ca [a])) =
        num_mul score (Fin 1.1)) \<and>
     analyze hostname constructor (js ''You must agree to mandatory arbitration and waive right to jury trial and waive right to class action.'') defaultOptions = Inr r \<and>
     risk_score r = Fin 100 \<and> risk_level r = HIGH"
proof -
  let ?a = "analysisOf constructor (js ''You must agree to mandatory arbitration and waive right to jury trial and waive right to class action.'')"
  have clauses: "analyzeClauses constructor (extractClauses (preprocessText (js ''You must agree to mandatory arbitration and waive right to jury trial and waive right to class action.''))) = Inr [?a]"
    by (simp only: arbitration_clauses analyzeClauses_catalog list.map)
  have categories: "map category_m (matches_ca ?a) = [FORCED_ARBITRATION, CLASS_ACTION_WAIVER]"
    by (simp add: analysisOf_def arbitration_matches matchOf_sel(1))
  have modifier:
    "\<forall>score. applyLinguisticModifiers score (join (js '' '') (map text_ca [?a])) =
       num_mul score (Fin 1.1)"
    by (simp add: analysisOf_def arbitration_modifier)
  have "\<exists>r. analyze hostname constructor (js ''You must agree to mandatory arbitration and waive right to jury trial and waive right to class action.'') defaultOptions = Inr r \<and>
         risk_score r = Fin 100 \<and> risk_level r = HIGH"
    by (simp add: analyze_no_url defaultOptions_def
        default_preferences [unfolded defaultOptions_def] arbitration_risk_score getRiskLevel_def)
  then obtain r where
    "analyze hostname constructor (js ''You must agree to mandatory arbitration and waive right to jury trial and waive right to class action.'') defaultOptions = Inr r"
    "risk_score r = Fin 100" "risk_level r = HIGH"
    by blast
  with clauses categories modifier show ?thesis
    by (intro exI [of _ ?a] exI [of _ r] conjI)
qed

theorem arbitration_scenario_witness:
  "\<exists>r. analyze (\<lambda>u. None) constructor (js ''You must agree to mandatory arbitration and waive right to jury trial and waive right to class action.'') defaultOptions = Inr r \<and>
       risk_level r = HIGH"
  using arbitration_scenario [of "\<lambda>u. None"] by blast

text \<open>
  C1. On the text about third party advertisers, with the default options, the code
  finds no match at all: the clause analysis has no matches, and the result has score 0,
  level LOW, no red flags and no category scores. No modifier is applied, since the score
  of a text without risky clause is 0 before the modifiers are looked at.
\<close>

theorem data_sharing_scenario:
  "analyzeClauses constructor
     (extractClauses (preprocessText (js ''We may share your data with third party advertisers.''))) =
     Inr [\<lparr>text_ca = js ''We may share your data with third party advertisers.'',
           matches_ca = [], is_risky_ca = False, highest_risk_ca = 0\<rparr>] \<and>
   (\<exists>r. analyze hostname constructor (js ''We may share your data with third party advertisers.'') defaultOptions = Inr r \<and>
        risk_score r = Fin 0 \<and> risk_level r = LOW \<and> red_flags r = [] \<and> category_scores r = [])"
proof -
  have clauses:
    "analyzeClauses constructor (extractClauses (preprocessText (js ''We may share your data with third party advertisers.''))) =
       Inr [analysisOf constructor (js ''We may share your data with third party advertisers.'')]"
    by (simp only: sharing_clauses analyzeClauses_catalog list.map)
  have analysis:
    "analysisOf constructor (js ''We may share your data with third party advertisers.'') =
       \<lparr>text_ca = js ''We may share your data with third party advertisers.'', matches_ca = [], is_risky_ca = False, highest_risk_ca = 0\<rparr>"
    by (simp add: analysisOf_def sharing_matches)
  have result:
    "\<exists>r. analyze hostname constructor (js ''We may share your data with third party advertisers.'') defaultOptions = Inr r \<and>
         risk_score r = Fin 0 \<and> risk_level r = LOW \<and> red_flags r = [] \<and> category_scores r = []"
    by (simp add: analyze_no_url defaultOptions_def sharing_analyses analysis
        calculateRiskScore_def generateRedFlags_def collectMatches_def sortMatches_def
        getRiskLevel_def calculateCategoryScores_def category_keys_def)
  show ?thesis
    using clauses analysis result by simp
qed

theorem data_sharing_scenario_witness:
  "\<exists>r. analyze (\<lambda>u. None) constructor (js ''We may share your data with third party advertisers.'') defaultOptions = Inr r \<and>
       risk_score r = Fin 0 \<and> red_flags r = []"
  using data_sharing_scenario [of "\<lambda>u. None"] by blast

text \<open>
  C5. When no clause of a text matches a pattern of any category, and in particular when
  the text is empty or consists of white space, the engine either stops at the URL of the
  options or returns the score 0, the level LOW, no red flags and the confidence 1.
\<close>

theorem no_match_result:
  assumes "list_all isWhiteSpace text \<or>
           (\<forall>clause \<in> set (extractClauses (preprocessText text)).
              \<forall>key. matchCount clause (patterns constructor key) = 0)"
  shows "case analyze hostname constructor text opts of
           Inl e \<Rightarrow> e = InvalidURL
         | Inr r \<Rightarrow>
             risk_score r = Fin 0 \<and> risk_level r = LOW \<and> red_flags r = [] \<and> confidence r = 1"
proof -
  from assms
  have none: "\<forall>clause \<in> set (extractClauses (preprocessText text)).
                \<forall>key. matchCount clause (patterns constructor key) = 0"
    by (auto simp: blank_no_clauses)
  have "\<forall>a \<in> set (analysesOf constructor text). matches_ca a = [] \<and> \<not> is_risky_ca a"
    using none by (auto simp: analysesOf_def no_match_analysis)
  note totals = no_match_totals [OF this]
  show ?thesis
    by (auto simp: analyze_catalog totals getRiskLevel_def split: sum.splits
        dest: generateBenchmark_error)
qed

theorem no_match_result_witness:
  "(\<exists>r. analyze (\<lambda>u. None) constructor (js ''We may share your data with third party advertisers.'') defaultOptions = Inr r \<and>
        risk_score r = Fin 0 \<and> risk_level r = LOW \<and> red_flags r = [] \<and> confidence r = 1) \<and>
   (\<exists>r. analyze (\<lambda>u. None) constructor (js ''  '') defaultOptions = Inr r \<and>
        risk_score r = Fin 0 \<and> risk_level r = LOW \<and> red_flags r = [] \<and> confidence r = 1)"
proof -
  have none: "\<forall>clause \<in> set (extractClauses (preprocessText (js ''We may share your data with third party advertisers.''))).
      \<forall>key. matchCount clause (patterns constructor key) = 0"
    by (simp add: sharing_clauses constructor_sel sharing_matchCount)
  have blank: "list_all isWhiteSpace (js ''  '')"
    by (simp add: js_def isWhiteSpace_def)
  show ?thesis
    using none
      no_match_result [of "js ''We may share your data with third party advertisers.''" "\<lambda>u. None" defaultOptions]
      no_match_result [of "js ''  ''" "\<lambda>u. None" defaultOptions] blank
    by (simp add: analyze_no_url defaultOptions_def getRiskLevel_def)
qed

text \<open>
  C2. For every clause and every category of the catalog: when at least one keyword
  pattern of the category matches the clause, \<open>findPatternMatch\<close> returns a match whose
  confidence is \<open>min 0.95 (0.6 + 0.15 * n)\<close>, with \<open>n\<close> the number of keyword patterns of the
  category that match, and whose severity is the severity of the category in the pattern
  catalog; the clause analysis holds exactly one match of that category, with that
  confidence and that severity.
\<close>

theorem match_confidence_severity:
  assumes "0 < matchCount clause (patterns constructor key)"
  shows "findPatternMatch clause (patterns constructor key) =
           Inr (Some \<lparr>severity_pm = severity_p (patterns constructor key),
                      confidence_pm =
                        min 0.95 (0.6 + 0.15 * real (matchCount clause (patterns constructor key))),
                      keywords_pm =
                        filter (keywordMatches clause) (keywords_p (patterns constructor key))\<rparr>) \<and>
         (\<exists>a m. analyzeClause constructor clause = Inr a \<and>
                filter (\<lambda>m. category_m m = key) (matches_ca a) = [m] \<and>
                confidence_m m =
                  min 0.95 (0.6 + 0.15 * real (matchCount clause (patterns constructor key))) \<and>
                severity_m m = severity_p (patterns constructor key))"
proof -
  from assms have pos: "0 < matchCount clause (setupPatterns key)"
    by (simp add: constructor_sel)
  have "filter (\<lambda>m. category_m m = key) (matches_ca (analysisOf constructor clause)) =
        [matchOf constructor clause key]"
    using pos by (simp add: analysisOf_def clauseMatches_key)
  then show ?thesis
    using pos
    by (simp add: analyzeClause_catalog findPatternMatch_catalog constructor_sel matchOf_sel(2,3))
qed

theorem match_confidence_severity_witness:
  "0 < matchCount (js ''You must agree to mandatory arbitration and waive right to jury trial and waive right to class action.'') (patterns constructor FORCED_ARBITRATION) \<and>
   (\<exists>pm. findPatternMatch (js ''You must agree to mandatory arbitration and waive right to jury trial and waive right to class action.'') (patterns constructor FORCED_ARBITRATION) = Inr (Some pm) \<and>
         confidence_pm pm = 0.9 \<and> severity_pm pm = 0.95)"
proof -
  have count: "matchCount (js ''You must agree to mandatory arbitration and waive right to jury trial and waive right to class action.'') (patterns constructor FORCED_ARBITRATION) = 2"
    by (simp add: constructor_sel arbitration_matchCount del: setupPatterns.simps)
  have sev: "severity_p (patterns constructor FORCED_ARBITRATION) = 0.95"
    by (simp add: constructor_sel)
  show ?thesis
    using match_confidence_severity [of "js ''You must agree to mandatory arbitration and waive right to jury trial and waive right to class action.''" FORCED_ARBITRATION]
    by (simp add: count sev)
qed

text \<open>
  C9. When the domain of the benchmark is determined (the URL is absent, empty, or parsed
  by the platform), the percentage is \<open>Math.round(((riskScore - average) / average) * 100)\<close>
  for the average of the bucket selected by the domain, which for a finite score is
  \<open>round (((riskScore - average) / average) * 100)\<close>; a positive percentage is reported as
  worse and implies a score above the average; and without a URL the bucket is
  TECHNOLOGY, whose average is 50.
\<close>

theorem benchmark_percentage:
  assumes "benchmarkDomain hostname u = Inr domain"
  shows "\<exists>average b.
           average = average_risk_score (benchmarks constructor (benchmarkCategory domain)) \<and>
           generateBenchmark hostname constructor u riskScore = Inr b \<and>
           percentage_br b =
             Math_round
               (num_mul (num_div (num_sub riskScore (Fin average)) (Fin average)) (Fin 100)) \<and>
           (\<forall>x. riskScore = Fin x \<longrightarrow>
                percentage_br b = Fin (of_int (round (((x - average) / average) * 100)))) \<and>
           average_score_br b = average \<and>
           category_br b = name_b (benchmarks constructor (benchmarkCategory domain)) \<and>
           (comparison_br b = ''worse'' \<longleftrightarrow> num_lt (Fin 0) (percentage_br b)) \<and>
           (num_lt (Fin 0) (percentage_br b) \<longrightarrow> num_lt (Fin average) riskScore) \<and>
           (u = None \<longrightarrow> benchmarkCategory domain = TECHNOLOGY \<and> average = 50)"
proof -
  let ?average = "average_risk_score (setupBenchmarks (benchmarkCategory domain))"
  let ?percentage =
    "Math_round (num_mul (num_div (num_sub riskScore (Fin ?average)) (Fin ?average)) (Fin 100))"
  have average: "0 < ?average"
    by (rule bucket_average_positive)
  have positive: "num_lt (Fin 0) ?percentage \<longrightarrow> num_lt (Fin ?average) riskScore"
    using percentage_positive [OF average] by blast
  have finite:
    "\<forall>x. riskScore = Fin x \<longrightarrow>
         ?percentage = Fin (of_int (round (((x - ?average) / ?average) * 100)))"
    using average by (simp add: num_sub_def)
  have empty: "benchmarkCategory [] = TECHNOLOGY"
    by (simp add: benchmarkCategory_def js_def)
  have no_url: "u = None \<longrightarrow> benchmarkCategory domain = TECHNOLOGY \<and> ?average = 50"
    using assms empty by (auto simp: benchmarkDomain_def)
  show ?thesis
    using assms positive finite no_url
    by (simp add: generateBenchmark_def constructor_sel Let_def)
qed

theorem benchmark_percentage_witness:
  "benchmarkDomain (\<lambda>u. None) None = Inr [] \<and>
   (\<exists>b. generateBenchmark (\<lambda>u. None) constructor None (Fin 80) = Inr b \<and>
        percentage_br b = Fin 60 \<and> average_score_br b = 50 \<and> comparison_br b = ''worse'')"
proof -
  have domain: "benchmarkDomain (\<lambda>u. None) None = Inr []"
    by (simp add: benchmarkDomain_def)
  have r: "round (((80 - 50) / 50) * 100 :: real) = 60"
    by simp
  show ?thesis
    using benchmark_percentage [OF domain, of "Fin 80"] domain
    by (auto simp: r num_sub_def)
qed

end
